theory Spec2Isabelle
  imports Complex_Main "HOL-Library.Sublist"
begin

section \<open>JavaScript values that the handlers inspect\<close>

text \<open>
  The token bundle is duck-typed JSON: the handlers read properties of whatever
  \<open>JSON.parse\<close> or axios hands them and branch on JavaScript truthiness.  A parsed
  JSON value is one of the six JSON shapes; a property read that yields
  \<open>undefined\<close> is \<open>None\<close>.  An object lists its own properties, each key once.
\<close>

datatype json =
    JNull
  | JBool bool
  | JNum rat
  | JStr string
  | JArr "json list"
  | JObj "(string \<times> json) list"

text \<open>\<open>v.k\<close> for a value \<open>v\<close> that is not \<open>null\<close>: only objects carry the keys read here.\<close>

fun get_prop :: "json \<Rightarrow> string \<Rightarrow> json option" where
  "get_prop (JObj kvs) k = map_of kvs k"
| "get_prop _ k = None"

text \<open>\<open>v?.k\<close>: optional chaining turns a read on \<open>null\<close> into \<open>undefined\<close>.\<close>

definition opt_prop :: "json \<Rightarrow> string \<Rightarrow> json option" where
  "opt_prop v k = (if v = JNull then None else get_prop v k)"

text \<open>Truthiness, as \<open>!x\<close> and \<open>x || y\<close> test it.\<close>

fun truthy :: "json option \<Rightarrow> bool" where
  "truthy None = False"
| "truthy (Some JNull) = False"
| "truthy (Some (JBool b)) = b"
| "truthy (Some (JNum n)) = (n \<noteq> 0)"
| "truthy (Some (JStr s)) = (s \<noteq> [])"
| "truthy (Some (JArr xs)) = True"
| "truthy (Some (JObj kvs)) = True"

text \<open>Truthiness of a \<open>string | null | undefined\<close>.\<close>

fun truthy_str :: "string option \<Rightarrow> bool" where
  "truthy_str None = False"
| "truthy_str (Some s) = (s \<noteq> [])"

text \<open>A template literal \<open>`${x}...`\<close> over an environment variable that may be unset.\<close>

fun tmpl :: "string option \<Rightarrow> string" where
  "tmpl None = ''undefined''"
| "tmpl (Some s) = s"

section \<open>The platform: runtime library, environment, provider\<close>

text \<open>
  What a \<open>try\<close> block can catch: an axios error (message, code, and the response's
  status and data when a response arrived), another \<open>Error\<close> (name, message, stack),
  or a thrown non-error, kept as its \<open>String(err)\<close>.
\<close>

datatype thrown =
    AxiosError string "string option" "(nat \<times> json) option"
  | JsError string string "string option"
  | NonError string

text \<open>
  Library functions of the JavaScript runtime are parameters of the model: the JSON
  parser (\<open>None\<close> when it throws), the JSON serialiser, the string conversion of a
  value, the encoding of \<open>URLSearchParams.toString()\<close>, and the stack text that a
  freshly constructed \<open>Error\<close> carries.  So is the framework's
  \<open>NextResponse.redirect(url)\<close> on a string: it answers with the \<open>Location\<close> it makes of an
  absolute URL, and throws on a relative or malformed one.
\<close>

record runtime =
  JSON_parse :: "string \<Rightarrow> json option"
  JSON_stringify :: "json \<Rightarrow> string"
  ToString :: "json \<Rightarrow> string"
  URLSearchParams_toString :: "(string \<times> string) list \<Rightarrow> string"
  Error_stack :: "string option"
  NextResponse_redirect :: "string \<Rightarrow> thrown + string"

text \<open>String conversion of a possibly \<open>undefined\<close> value.\<close>

fun js_String :: "runtime \<Rightarrow> json option \<Rightarrow> string" where
  "js_String rt None = ''undefined''"
| "js_String rt (Some v) = ToString rt v"

text \<open>\<open>process.env\<close>: the variables the two handlers and the middleware read.\<close>

record environment =
  NEXT_PUBLIC_OAUTH_TOKEN_URL :: "string option"
  NEXT_PUBLIC_OAUTH_CLIENT_ID :: "string option"
  NEXT_PUBLIC_OAUTH_REDIRECT_URI :: "string option"
  NEXT_PUBLIC_APP_URL :: "string option"
  NEXT_PUBLIC_API_URL :: "string option"
  NODE_ENV :: "string option"

text \<open>
  An awaited axios call either resolves with the response data (a 2xx status) or
  throws.  One invocation issues each kind of call at most once, so the provider is
  given by the outcome of the validation GET and of the token POST of that invocation.
\<close>

record provider =
  get_user_show :: "thrown + json"
  post_token :: "thrown + json"

text \<open>The network calls an invocation issues, in order.\<close>

datatype call =
    GetCall string "(string \<times> string) list"
  | PostCall string string "(string \<times> string) list"

fun is_get :: "call \<Rightarrow> bool" where
  "is_get (GetCall u h) = True"
| "is_get (PostCall u b h) = False"

fun is_post :: "call \<Rightarrow> bool" where
  "is_post (GetCall u h) = False"
| "is_post (PostCall u b h) = True"

section \<open>Requests and responses\<close>

record request =
  origin :: string
  pathname :: string
  searchParams :: "(string \<times> string) list"
  cookies :: "(string \<times> string) list"

record cookie_options =
  httpOnly :: bool
  secure :: bool
  sameSite :: string
  path :: string
  maxAge :: "json option"

datatype cookie_op =
    CookieSet string string cookie_options
  | CookieDelete string

record OAuthErrorPayload =
  error :: string
  message :: "string option"
  code :: "string option"
  status :: "nat option"
  details :: "json option"
  stack :: "string option"
  name :: "string option"

datatype response_kind =
    NextR
  | RedirectR string
  | JsonR OAuthErrorPayload nat

record response =
  kind :: response_kind
  cookie_ops :: "cookie_op list"

text \<open>\<open>NextResponse.next()\<close>.\<close>

definition next_response :: response where
  "next_response = \<lparr>kind = NextR, cookie_ops = []\<rparr>"

text \<open>\<open>NextResponse.redirect(new URL(target, request.url))\<close> for an absolute path.\<close>

definition redirect_to :: "request \<Rightarrow> string \<Rightarrow> response" where
  "redirect_to request target = \<lparr>kind = RedirectR (origin request @ target), cookie_ops = []\<rparr>"

text \<open>\<open>NextResponse.json(payload, {status})\<close>.\<close>

definition json_response :: "OAuthErrorPayload \<Rightarrow> nat \<Rightarrow> response" where
  "json_response payload st = \<lparr>kind = JsonR payload st, cookie_ops = []\<rparr>"

text \<open>
  What a middleware invocation ends with: a response, no return value at all
  (the function runs off its end), or an uncaught \<open>TypeError\<close>.
\<close>

datatype mw_result =
    Responded response
  | ReturnedUndefined
  | UncaughtTypeError

section \<open>The callback handler\<close>

text \<open>The payload object literal \<open>{ error: e }\<close>.\<close>

definition payload_of :: "string \<Rightarrow> OAuthErrorPayload" where
  "payload_of e = \<lparr>error = e, message = None, code = None, status = None,
     details = None, stack = None, name = None\<rparr>"

text \<open>The \<open>catch\<close> block of the callback handler.\<close>

fun catch_payload :: "environment \<Rightarrow> thrown \<Rightarrow> OAuthErrorPayload" where
  "catch_payload e (AxiosError msg cd resp) =
     (payload_of ''OAuth Error'')
       \<lparr>message := Some msg, code := cd, status := map_option fst resp,
        details := Some (case resp of None \<Rightarrow> JNull | Some (st, d) \<Rightarrow> d)\<rparr>"
| "catch_payload e (JsError nm msg stk) =
     (let payload = (payload_of ''OAuth Error'')\<lparr>message := Some msg, name := Some nm\<rparr>
      in if NODE_ENV e \<noteq> Some ''production'' \<and> truthy_str stk
         then payload\<lparr>stack := stk\<rparr> else payload)"
| "catch_payload e (NonError s) =
     (payload_of ''OAuth Error'')\<lparr>details := Some (JStr s)\<rparr>"

text \<open>
  The handler.  Everything from the token URL test to the \<open>return response\<close> is inside
  the \<open>try\<close>: the thrown \<open>Error\<close> for an unset token URL, a failing POST and a redirect
  that \<open>NextResponse.redirect\<close> refuses all end in the \<open>catch\<close> block, before any cookie
  is touched.
\<close>

definition GET :: "runtime \<Rightarrow> environment \<Rightarrow> provider \<Rightarrow> request \<Rightarrow> response \<times> call list" where
  "GET rt e pv request =
     (let code = map_of (searchParams request) ''code'';
          verifier = map_of (cookies request) ''pkce_verifier''
      in if \<not> truthy_str code \<or> \<not> truthy_str verifier then
           (json_response (payload_of ''Invalid state: missing code or verifier'') 400, [])
         else if \<not> truthy_str (NEXT_PUBLIC_OAUTH_TOKEN_URL e) then
           (json_response
              (catch_payload e (JsError ''Error'' ''Token URL not defined'' (Error_stack rt))) 500, [])
         else
           (let params =
                  [(''grant_type'', ''authorization_code''),
                   (''client_id'', case NEXT_PUBLIC_OAUTH_CLIENT_ID e of None \<Rightarrow> [] | Some s \<Rightarrow> s),
                   (''redirect_uri'', case NEXT_PUBLIC_OAUTH_REDIRECT_URI e of None \<Rightarrow> [] | Some s \<Rightarrow> s),
                   (''code'', tmpl code),
                   (''code_verifier'', tmpl verifier)];
                post = PostCall (tmpl (NEXT_PUBLIC_OAUTH_TOKEN_URL e))
                         (URLSearchParams_toString rt params)
                         [(''Content-Type'', ''application/x-www-form-urlencoded'')]
            in case post_token pv of
                 Inl err \<Rightarrow> (json_response (catch_payload e err) 500, [post])
               | Inr data \<Rightarrow>
                   (case NextResponse_redirect rt
                           (tmpl (NEXT_PUBLIC_APP_URL e) @ ''/dashboard'') of
                      Inl err \<Rightarrow> (json_response (catch_payload e err) 500, [post])
                    | Inr location \<Rightarrow>
                        (\<lparr>kind = RedirectR location,
                          cookie_ops =
                            [CookieSet ''oauth_data'' (JSON_stringify rt data)
                               \<lparr>httpOnly = True, secure = False, sameSite = ''lax'',
                                path = ''/'', maxAge = None\<rparr>,
                             CookieDelete ''pkce_verifier'']\<rparr>,
                         [post]))))"

section \<open>The access guard\<close>

text \<open>
  The refresh attempt after a 401, lines 87 to 120 of the first middleware and the same
  statements in the second one.  Reading \<open>expires_in\<close> of a \<open>null\<close> body throws inside the
  \<open>try\<close> and lands in its \<open>catch\<close>.
\<close>

definition refresh :: "runtime \<Rightarrow> environment \<Rightarrow> provider \<Rightarrow> request \<Rightarrow> json option
    \<Rightarrow> mw_result \<times> call list" where
  "refresh rt e pv request refresh_token =
     (let refreshParams =
            [(''grant_type'', ''refresh_token''),
             (''refresh_token'', js_String rt refresh_token),
             (''client_id'', case NEXT_PUBLIC_OAUTH_CLIENT_ID e of None \<Rightarrow> [] | Some s \<Rightarrow> s)];
          post = PostCall (tmpl (NEXT_PUBLIC_API_URL e) @ ''/oauth/token'')
                   (URLSearchParams_toString rt refreshParams)
                   [(''Content-Type'', ''application/x-www-form-urlencoded'')]
      in case post_token pv of
           Inl refreshError \<Rightarrow> (Responded (redirect_to request ''/auth/login''), [post])
         | Inr newTokens \<Rightarrow>
             if newTokens = JNull then (Responded (redirect_to request ''/auth/login''), [post])
             else
               (Responded
                  \<lparr>kind = NextR,
                   cookie_ops =
                     [CookieSet ''oauth_data'' (JSON_stringify rt newTokens)
                        \<lparr>httpOnly = True,
                         secure = (NODE_ENV e = Some ''production''),
                         sameSite = ''lax'',
                         path = ''/'',
                         maxAge = Some (case get_prop newTokens ''expires_in'' of
                                          None \<Rightarrow> JNum 3600
                                        | Some x \<Rightarrow> if truthy (Some x) then x else JNum 3600)\<rparr>]\<rparr>,
                [post]))"

text \<open>\<open>error.response?.status\<close> of a caught axios error.\<close>

fun response_status :: "thrown \<Rightarrow> nat option" where
  "response_status (AxiosError msg cd resp) = map_option fst resp"
| "response_status _ = None"

text \<open>
  The middleware of \<open>src/middleware.ts\<close>.  Its body has no path test; the module exports
  \<open>config.matcher = ["/dashboard/:path*"]\<close> and leaves the choice of requests to the
  framework.
\<close>

definition middleware :: "runtime \<Rightarrow> environment \<Rightarrow> provider \<Rightarrow> request \<Rightarrow> mw_result \<times> call list" where
  "middleware rt e pv request =
     (let oauthCookie = map_of (cookies request) ''oauth_data''
      in if \<not> truthy_str oauthCookie then
           (Responded (redirect_to request ''/auth/login''), [])
         else case JSON_parse rt (tmpl oauthCookie) of
           None \<Rightarrow> (Responded (redirect_to request ''/auth/login''), [])
         | Some oauthData \<Rightarrow>
             (let access_token = opt_prop oauthData ''access_token'';
                  refresh_token = opt_prop oauthData ''refresh_token''
              in if \<not> truthy access_token then
                   (Responded (redirect_to request ''/auth/login''), [])
                 else
                   (let get = GetCall (tmpl (NEXT_PUBLIC_API_URL e) @ ''/api/user/show'')
                                [(''Authorization'', ''Bearer '' @ js_String rt access_token),
                                 (''Accept'', ''application/json'')]
                    in case get_user_show pv of
                         Inr user \<Rightarrow> (Responded next_response, [get])
                       | Inl err \<Rightarrow>
                           (case err of
                              AxiosError msg cd resp \<Rightarrow>
                                if map_option fst resp = Some 401 then
                                  (case refresh rt e pv request refresh_token of
                                     (r, cs) \<Rightarrow> (r, get # cs))
                                else if map_option fst resp = Some 403 then
                                  (Responded (redirect_to request ''/auth/forbidden''), [get])
                                else (Responded (redirect_to request ''/auth/login''), [get])
                            | JsError nm msg stk \<Rightarrow>
                                (Responded (redirect_to request ''/auth/login''), [get])
                            | NonError s \<Rightarrow>
                                (Responded (redirect_to request ''/auth/login''), [get])))))"

text \<open>
  The second middleware, which tests the path itself.  Destructuring a \<open>null\<close> cookie
  value throws outside every \<open>try\<close>; an axios error whose status is not 401 leaves the
  \<open>catch\<close> block without a \<open>return\<close>.
\<close>

definition protectedPaths :: "string list" where
  "protectedPaths = [''/dashboard'']"

definition middleware_pathcheck :: "runtime \<Rightarrow> environment \<Rightarrow> provider \<Rightarrow> request
    \<Rightarrow> mw_result \<times> call list" where
  "middleware_pathcheck rt e pv request =
     (if \<not> list_ex (\<lambda>p. prefix p (pathname request)) protectedPaths then
        (Responded next_response, [])
      else
        (let oauthData = map_of (cookies request) ''oauth_data''
         in if \<not> truthy_str oauthData then
              (Responded (redirect_to request ''/auth/login''), [])
            else case JSON_parse rt (tmpl oauthData) of
              None \<Rightarrow> (Responded (redirect_to request ''/auth/login''), [])
            | Some parsedData \<Rightarrow>
                if parsedData = JNull then (UncaughtTypeError, [])
                else
                  (let access_token = get_prop parsedData ''access_token'';
                       refresh_token = get_prop parsedData ''refresh_token''
                   in if \<not> truthy access_token \<or> \<not> truthy refresh_token then
                        (Responded (redirect_to request ''/auth/login''), [])
                      else
                        (let get = GetCall (tmpl (NEXT_PUBLIC_API_URL e) @ ''/api/user/show'')
                                     [(''Authorization'', ''Bearer '' @ js_String rt access_token)]
                         in case get_user_show pv of
                              Inr user \<Rightarrow> (Responded next_response, [get])
                            | Inl err \<Rightarrow>
                                (case err of
                                   AxiosError msg cd resp \<Rightarrow>
                                     if map_option fst resp = Some 401 then
                                       (case refresh rt e pv request refresh_token of
                                          (r, cs) \<Rightarrow> (r, get # cs))
                                     else (ReturnedUndefined, [get])
                                 | JsError nm msg stk \<Rightarrow>
                                     (Responded (redirect_to request ''/auth/login''), [get])
                                 | NonError s \<Rightarrow>
                                     (Responded (redirect_to request ''/auth/login''), [get]))))))"

section \<open>Concrete inputs\<close>

text \<open>
  A small platform on which the handlers can be run: a parser that knows four cookie
  texts, a serialiser that tells the refreshed bundle from anything else, and a provider
  given by its two answers.
\<close>

definition ex_bundle :: json where
  "ex_bundle = JObj [(''access_token'', JStr ''at''), (''refresh_token'', JStr ''rt'')]"

definition ex_new_bundle :: json where
  "ex_new_bundle = JObj [(''access_token'', JStr ''at2''), (''refresh_token'', JStr ''rt2''),
     (''expires_in'', JNum 7200)]"

definition ex_runtime :: runtime where
  "ex_runtime = \<lparr>
     JSON_parse = (\<lambda>s. if s = ''bundle'' then Some ex_bundle
                        else if s = ''access-only'' then Some (JObj [(''access_token'', JStr ''at'')])
                        else if s = ''refresh-only'' then Some (JObj [(''refresh_token'', JStr ''rt'')])
                        else if s = ''null'' then Some JNull
                        else None),
     JSON_stringify = (\<lambda>v. if v = ex_new_bundle then ''new-bundle'' else ''other''),
     ToString = (\<lambda>v. case v of JStr s \<Rightarrow> s | _ \<Rightarrow> ''[object]''),
     URLSearchParams_toString = (\<lambda>ps. concat (map (\<lambda>(k, v). k @ ''='' @ v @ ''&'') ps)),
     Error_stack = None,
     NextResponse_redirect =
       (\<lambda>u. if prefix ''https://'' u then Inr u
            else Inl (JsError ''Error'' ''URL is malformed'' None))\<rparr>"

definition ex_env :: environment where
  "ex_env = \<lparr>
     NEXT_PUBLIC_OAUTH_TOKEN_URL = Some ''https://id.example/oauth/token'',
     NEXT_PUBLIC_OAUTH_CLIENT_ID = Some ''client'',
     NEXT_PUBLIC_OAUTH_REDIRECT_URI = Some ''https://app.example/auth/callback'',
     NEXT_PUBLIC_APP_URL = Some ''https://app.example'',
     NEXT_PUBLIC_API_URL = Some ''https://id.example'',
     NODE_ENV = Some ''production''\<rparr>"

definition ex_env_no_token_url :: environment where
  "ex_env_no_token_url = ex_env\<lparr>NEXT_PUBLIC_OAUTH_TOKEN_URL := None\<rparr>"

definition ex_env_relative_app :: environment where
  "ex_env_relative_app = ex_env\<lparr>NEXT_PUBLIC_APP_URL := Some []\<rparr>"

definition ex_guarded :: "string \<Rightarrow> string \<Rightarrow> request" where
  "ex_guarded p c = \<lparr>origin = ''https://app.example'', pathname = p,
     searchParams = [], cookies = [(''oauth_data'', c)]\<rparr>"

definition ex_request :: request where
  "ex_request = ex_guarded ''/dashboard'' ''bundle''"

definition ex_callback :: "string \<Rightarrow> request" where
  "ex_callback c = \<lparr>origin = ''https://app.example'', pathname = ''/auth/callback'',
     searchParams = [(''code'', c)], cookies = [(''pkce_verifier'', ''ver'')]\<rparr>"

definition ex_http_error :: "nat \<Rightarrow> thrown" where
  "ex_http_error st = AxiosError ''Request failed'' (Some ''ERR_BAD_REQUEST'') (Some (st, JNull))"

definition ex_provider :: "thrown + json \<Rightarrow> thrown + json \<Rightarrow> provider" where
  "ex_provider g p = \<lparr>get_user_show = g, post_token = p\<rparr>"

section \<open>Properties of the access guard\<close>

text \<open>
  C1, as amended.  On a protected path the two middleware functions end in the same
  outcome whenever the cookie is absent, empty, unparsable, lacks the access token or
  carries both tokens, and the validation call succeeds, fails with a 401 (whether the
  refresh then succeeds or fails) or fails without being an axios error.
\<close>

theorem middlewares_agree:
  assumes "prefix ''/dashboard'' (pathname request)"
    and "\<forall>c d. map_of (cookies request) ''oauth_data'' = Some c \<and> c \<noteq> []
                 \<and> JSON_parse rt c = Some d
           \<longrightarrow> d \<noteq> JNull
             \<and> (truthy (get_prop d ''access_token'') \<longrightarrow> truthy (get_prop d ''refresh_token''))"
    and "\<forall>msg cd resp. get_user_show pv = Inl (AxiosError msg cd resp)
           \<longrightarrow> map_option fst resp = Some 401"
  shows "fst (middleware rt e pv request) = fst (middleware_pathcheck rt e pv request)"
proof (cases "map_of (cookies request) ''oauth_data''")
  case None
  with assms(1) show ?thesis
    by (simp add: middleware_def middleware_pathcheck_def protectedPaths_def Let_def)
next
  case (Some c)
  note cookie = this
  show ?thesis
  proof (cases "c = [] \<or> JSON_parse rt c = None")
    case True
    with cookie assms(1) show ?thesis
      by (auto simp: middleware_def middleware_pathcheck_def protectedPaths_def Let_def)
  next
    case False
    then obtain d where "JSON_parse rt c = Some d" and ne: "c \<noteq> []" by auto
    note Some = this(1)
    from Some ne cookie assms(2)
    have d: "d \<noteq> JNull"
      and t: "truthy (get_prop d ''access_token'') \<longrightarrow> truthy (get_prop d ''refresh_token'')"
      by blast+
    show ?thesis
    proof (cases "get_user_show pv")
      case (Inr user)
      with Some cookie assms(1) d t show ?thesis
        by (auto simp: middleware_def middleware_pathcheck_def protectedPaths_def opt_prop_def Let_def)
    next
      case (Inl err)
      with Some cookie assms(1) assms(3) d t show ?thesis
        by (cases err)
           (auto simp: middleware_def middleware_pathcheck_def protectedPaths_def opt_prop_def Let_def
                 split: prod.splits)
    qed
  qed
qed

theorem middlewares_agree_witness:
  "prefix ''/dashboard'' (pathname ex_request)
   \<and> fst (middleware ex_runtime ex_env
            (ex_provider (Inl (ex_http_error 401)) (Inr ex_new_bundle)) ex_request)
     = fst (middleware_pathcheck ex_runtime ex_env
            (ex_provider (Inl (ex_http_error 401)) (Inr ex_new_bundle)) ex_request)"
proof -
  have h1: "prefix ''/dashboard'' (pathname ex_request)"
    by (simp add: ex_request_def ex_guarded_def)
  have h2: "\<forall>c d. map_of (cookies ex_request) ''oauth_data'' = Some c \<and> c \<noteq> []
                 \<and> JSON_parse ex_runtime c = Some d
           \<longrightarrow> d \<noteq> JNull
             \<and> (truthy (get_prop d ''access_token'') \<longrightarrow> truthy (get_prop d ''refresh_token''))"
    by (auto simp: ex_request_def ex_guarded_def ex_runtime_def ex_bundle_def)
  have h3: "\<forall>msg cd resp.
              get_user_show (ex_provider (Inl (ex_http_error 401)) (Inr ex_new_bundle))
                = Inl (AxiosError msg cd resp)
           \<longrightarrow> map_option fst resp = Some 401"
    by (simp add: ex_provider_def ex_http_error_def)
  from middlewares_agree [OF h1 h2 h3] h1 show ?thesis by simp
qed

text \<open>
  C1 fails as stated.  With both tokens in the cookie and a 403 from the provider, the
  first middleware redirects to the forbidden page and the second returns nothing.  With
  an access token alone and a 2xx from the provider, the first lets the request proceed
  and the second redirects to the login page.  With a cookie that parses to \<open>null\<close>, the
  first redirects to the login page and the second throws.
\<close>

theorem middlewares_differ:
  "prefix ''/dashboard'' (pathname ex_request)
   \<and> fst (middleware ex_runtime ex_env
            (ex_provider (Inl (ex_http_error 403)) (Inr ex_new_bundle)) ex_request)
       = Responded \<lparr>kind = RedirectR ''https://app.example/auth/forbidden'', cookie_ops = []\<rparr>
   \<and> fst (middleware_pathcheck ex_runtime ex_env
            (ex_provider (Inl (ex_http_error 403)) (Inr ex_new_bundle)) ex_request)
       = ReturnedUndefined
   \<and> fst (middleware ex_runtime ex_env
            (ex_provider (Inr (JObj [])) (Inr ex_new_bundle)) (ex_guarded ''/dashboard'' ''access-only''))
       = Responded \<lparr>kind = NextR, cookie_ops = []\<rparr>
   \<and> fst (middleware_pathcheck ex_runtime ex_env
            (ex_provider (Inr (JObj [])) (Inr ex_new_bundle)) (ex_guarded ''/dashboard'' ''access-only''))
       = Responded \<lparr>kind = RedirectR ''https://app.example/auth/login'', cookie_ops = []\<rparr>
   \<and> fst (middleware ex_runtime ex_env
            (ex_provider (Inr (JObj [])) (Inr ex_new_bundle)) (ex_guarded ''/dashboard'' ''null''))
       = Responded \<lparr>kind = RedirectR ''https://app.example/auth/login'', cookie_ops = []\<rparr>
   \<and> fst (middleware_pathcheck ex_runtime ex_env
            (ex_provider (Inr (JObj [])) (Inr ex_new_bundle)) (ex_guarded ''/dashboard'' ''null''))
       = UncaughtTypeError"
  by (simp add: middleware_def middleware_pathcheck_def protectedPaths_def opt_prop_def Let_def
        redirect_to_def next_response_def ex_request_def ex_guarded_def ex_runtime_def
        ex_bundle_def ex_provider_def ex_http_error_def)

text \<open>
  C2.  When the cookie parses, its access token is truthy and the validation call fails
  with status 403, the middleware of \<open>src/middleware.ts\<close> redirects to
  \<open>/auth/forbidden\<close>.  A cookie that parses is not the empty string.
\<close>

theorem middleware_403_forbidden:
  assumes "map_of (cookies request) ''oauth_data'' = Some c"
    and "c \<noteq> []"
    and "JSON_parse rt c = Some oauthData"
    and "truthy (opt_prop oauthData ''access_token'')"
    and "get_user_show pv = Inl (AxiosError msg cd (Some (403, body)))"
  shows "fst (middleware rt e pv request)
         = Responded \<lparr>kind = RedirectR (origin request @ ''/auth/forbidden''), cookie_ops = []\<rparr>"
  using assms by (simp add: middleware_def redirect_to_def)

theorem middleware_403_forbidden_witness:
  "map_of (cookies ex_request) ''oauth_data'' = Some ''bundle''
   \<and> JSON_parse ex_runtime ''bundle'' = Some ex_bundle
   \<and> truthy (opt_prop ex_bundle ''access_token'')
   \<and> fst (middleware ex_runtime ex_env
            (ex_provider (Inl (ex_http_error 403)) (Inl (ex_http_error 400))) ex_request)
     = Responded \<lparr>kind = RedirectR ''https://app.example/auth/forbidden'', cookie_ops = []\<rparr>"
proof -
  have h1: "map_of (cookies ex_request) ''oauth_data'' = Some ''bundle''"
    by (simp add: ex_request_def ex_guarded_def)
  have h2: "''bundle'' \<noteq> []" by simp
  have h3: "JSON_parse ex_runtime ''bundle'' = Some ex_bundle"
    by (simp add: ex_runtime_def)
  have h4: "truthy (opt_prop ex_bundle ''access_token'')"
    by (simp add: opt_prop_def ex_bundle_def)
  have h5: "get_user_show (ex_provider (Inl (ex_http_error 403)) (Inl (ex_http_error 400)))
            = Inl (AxiosError ''Request failed'' (Some ''ERR_BAD_REQUEST'') (Some (403, JNull)))"
    by (simp add: ex_provider_def ex_http_error_def)
  from middleware_403_forbidden [OF h1 h2 h3 h4 h5, of ex_env] h1 h3 h4
  show ?thesis by (simp add: ex_request_def ex_guarded_def)
qed

text \<open>
  C3.  When the cookie parses, its access token is truthy and the validation call fails
  with anything but a 401 or a 403 (another status, an axios error without a response,
  an exception that is not an axios error), the middleware of \<open>src/middleware.ts\<close>
  redirects to \<open>/auth/login\<close>.
\<close>

theorem middleware_other_error_login:
  assumes "map_of (cookies request) ''oauth_data'' = Some c"
    and "c \<noteq> []"
    and "JSON_parse rt c = Some oauthData"
    and "truthy (opt_prop oauthData ''access_token'')"
    and "get_user_show pv = Inl err"
    and "response_status err \<noteq> Some 401"
    and "response_status err \<noteq> Some 403"
  shows "fst (middleware rt e pv request)
         = Responded \<lparr>kind = RedirectR (origin request @ ''/auth/login''), cookie_ops = []\<rparr>"
  using assms by (cases err) (simp_all add: middleware_def redirect_to_def)

theorem middleware_other_error_login_witness:
  "map_of (cookies ex_request) ''oauth_data'' = Some ''bundle''
   \<and> JSON_parse ex_runtime ''bundle'' = Some ex_bundle
   \<and> truthy (opt_prop ex_bundle ''access_token'')
   \<and> response_status (ex_http_error 500) = Some 500
   \<and> fst (middleware ex_runtime ex_env
            (ex_provider (Inl (ex_http_error 500)) (Inr ex_new_bundle)) ex_request)
     = Responded \<lparr>kind = RedirectR ''https://app.example/auth/login'', cookie_ops = []\<rparr>"
proof -
  have h1: "map_of (cookies ex_request) ''oauth_data'' = Some ''bundle''"
    by (simp add: ex_request_def ex_guarded_def)
  have h2: "''bundle'' \<noteq> []" by simp
  have h3: "JSON_parse ex_runtime ''bundle'' = Some ex_bundle"
    by (simp add: ex_runtime_def)
  have h4: "truthy (opt_prop ex_bundle ''access_token'')"
    by (simp add: opt_prop_def ex_bundle_def)
  have h5: "get_user_show (ex_provider (Inl (ex_http_error 500)) (Inr ex_new_bundle))
            = Inl (ex_http_error 500)"
    by (simp add: ex_provider_def)
  have h6: "response_status (ex_http_error 500) = Some 500"
    by (simp add: ex_http_error_def)
  have h7: "response_status (ex_http_error 500) \<noteq> Some 401"
    and h8: "response_status (ex_http_error 500) \<noteq> Some 403"
    using h6 by simp_all
  from middleware_other_error_login [OF h1 h2 h3 h4 h5 h7 h8, of ex_env] h1 h3 h4 h6
  show ?thesis by (simp add: ex_request_def ex_guarded_def)
qed

text \<open>
  C4, as amended.  When the cookie parses but carries no truthy access token, the
  middleware of \<open>src/middleware.ts\<close> redirects to \<open>/auth/login\<close> and issues no call.
  The second middleware does the same on a protected path when the parsed value is not
  \<open>null\<close> and the access token or the refresh token is missing.  With a truthy access
  token the middleware of \<open>src/middleware.ts\<close> issues the validation call, whatever the
  refresh token is.
\<close>

theorem missing_token_login:
  assumes "map_of (cookies request) ''oauth_data'' = Some c"
    and "JSON_parse rt c = Some d"
  shows "(\<not> truthy (opt_prop d ''access_token'')
            \<longrightarrow> middleware rt e pv request
                = (Responded \<lparr>kind = RedirectR (origin request @ ''/auth/login''),
                              cookie_ops = []\<rparr>, []))
       \<and> (prefix ''/dashboard'' (pathname request) \<and> d \<noteq> JNull
            \<and> (\<not> truthy (get_prop d ''access_token'') \<or> \<not> truthy (get_prop d ''refresh_token''))
            \<longrightarrow> middleware_pathcheck rt e pv request
                = (Responded \<lparr>kind = RedirectR (origin request @ ''/auth/login''),
                              cookie_ops = []\<rparr>, []))
       \<and> (c \<noteq> [] \<and> truthy (opt_prop d ''access_token'')
            \<longrightarrow> list_ex is_get (snd (middleware rt e pv request)))"
proof -
  have "c \<noteq> [] \<and> truthy (opt_prop d ''access_token'')
          \<longrightarrow> list_ex is_get (snd (middleware rt e pv request))"
    using assms
    by (auto simp: middleware_def Let_def case_prod_beta split: sum.splits thrown.splits)
  with assms show ?thesis
    by (auto simp: middleware_def middleware_pathcheck_def protectedPaths_def redirect_to_def Let_def)
qed

theorem missing_token_login_witness:
  "map_of (cookies (ex_guarded ''/dashboard'' ''refresh-only'')) ''oauth_data'' = Some ''refresh-only''
   \<and> JSON_parse ex_runtime ''refresh-only'' = Some (JObj [(''refresh_token'', JStr ''rt'')])
   \<and> \<not> truthy (opt_prop (JObj [(''refresh_token'', JStr ''rt'')]) ''access_token'')
   \<and> prefix ''/dashboard'' (pathname (ex_guarded ''/dashboard'' ''refresh-only''))
   \<and> middleware ex_runtime ex_env (ex_provider (Inr (JObj [])) (Inr ex_new_bundle))
        (ex_guarded ''/dashboard'' ''refresh-only'')
     = (Responded \<lparr>kind = RedirectR ''https://app.example/auth/login'', cookie_ops = []\<rparr>, [])
   \<and> middleware_pathcheck ex_runtime ex_env (ex_provider (Inr (JObj [])) (Inr ex_new_bundle))
        (ex_guarded ''/dashboard'' ''refresh-only'')
     = (Responded \<lparr>kind = RedirectR ''https://app.example/auth/login'', cookie_ops = []\<rparr>, [])"
proof -
  have h1: "map_of (cookies (ex_guarded ''/dashboard'' ''refresh-only'')) ''oauth_data''
            = Some ''refresh-only''"
    by (simp add: ex_guarded_def)
  have h2: "JSON_parse ex_runtime ''refresh-only'' = Some (JObj [(''refresh_token'', JStr ''rt'')])"
    by (simp add: ex_runtime_def)
  have h3: "\<not> truthy (opt_prop (JObj [(''refresh_token'', JStr ''rt'')]) ''access_token'')"
    and h4: "\<not> truthy (get_prop (JObj [(''refresh_token'', JStr ''rt'')]) ''access_token'')"
    by (simp_all add: opt_prop_def)
  have h5: "prefix ''/dashboard'' (pathname (ex_guarded ''/dashboard'' ''refresh-only''))"
    by (simp add: ex_guarded_def)
  from missing_token_login [OF h1 h2, of ex_env
         "ex_provider (Inr (JObj [])) (Inr ex_new_bundle)"] h1 h2 h3 h4 h5
  show ?thesis by (simp add: ex_guarded_def)
qed

text \<open>
  C4 fails as stated: a cookie with an access token and no refresh token passes the
  guard of \<open>src/middleware.ts\<close>, the provider is called, and on a 2xx answer the request
  proceeds.
\<close>

theorem missing_refresh_token_validates:
  "map_of (cookies (ex_guarded ''/dashboard'' ''access-only'')) ''oauth_data'' = Some ''access-only''
   \<and> JSON_parse ex_runtime ''access-only'' = Some (JObj [(''access_token'', JStr ''at'')])
   \<and> get_prop (JObj [(''access_token'', JStr ''at'')]) ''refresh_token'' = None
   \<and> middleware ex_runtime ex_env (ex_provider (Inr (JObj [])) (Inr ex_new_bundle))
        (ex_guarded ''/dashboard'' ''access-only'')
     = (Responded \<lparr>kind = NextR, cookie_ops = []\<rparr>,
        [GetCall ''https://id.example/api/user/show''
           [(''Authorization'', ''Bearer at''), (''Accept'', ''application/json'')]])"
  by (simp add: middleware_def opt_prop_def next_response_def Let_def
        ex_guarded_def ex_runtime_def ex_env_def ex_provider_def)

text \<open>
  The middleware of \<open>src/middleware.ts\<close> never reads the path: whatever the path is, it
  does what it does on the cookies and the provider's answers.
\<close>

lemma middleware_ignores_pathname:
  "middleware rt e pv (request\<lparr>pathname := p\<rparr>) = middleware rt e pv request"
proof -
  have "refresh rt e pv (request\<lparr>pathname := p\<rparr>) tok = refresh rt e pv request tok" for tok
    by (simp add: refresh_def redirect_to_def Let_def split: sum.splits)
  then show ?thesis
    by (simp add: middleware_def redirect_to_def Let_def
          split: option.splits sum.splits thrown.splits)
qed



text \<open>The refresh attempt issues exactly one POST, whatever it ends with.\<close>

lemma refresh_calls:
  "\<exists>u b h. snd (refresh rt e pv request tok) = [PostCall u b h]"
  by (simp add: refresh_def Let_def split: sum.splits)

text \<open>
  A refresh that returns a body other than \<open>null\<close> lets the request proceed and rewrites
  the cookie; its max-age is \<open>expires_in\<close> when that is truthy and 3600 otherwise.
\<close>

lemma refresh_sets_maxAge:
  assumes "post_token pv = Inr newTokens" and "newTokens \<noteq> JNull"
  shows "fst (refresh rt e pv request tok)
         = Responded \<lparr>kind = NextR,
             cookie_ops =
               [CookieSet ''oauth_data'' (JSON_stringify rt newTokens)
                  \<lparr>httpOnly = True, secure = (NODE_ENV e = Some ''production''),
                   sameSite = ''lax'', path = ''/'',
                   maxAge = Some (case get_prop newTokens ''expires_in'' of
                                    None \<Rightarrow> JNum 3600
                                  | Some x \<Rightarrow> if truthy (Some x) then x else JNum 3600)\<rparr>]\<rparr>"
  using assms by (simp add: refresh_def Let_def)

text \<open>The calls of one invocation: none, the validation GET, or the GET and the refresh.\<close>

lemma middleware_calls:
  "snd (middleware rt e pv request) = []
   \<or> (\<exists>u h. snd (middleware rt e pv request) = [GetCall u h]) 
   \<or> (\<exists>u h tok. snd (middleware rt e pv request) = GetCall u h # snd (refresh rt e pv request tok)
        \<and> fst (middleware rt e pv request) = fst (refresh rt e pv request tok)
        \<and> (\<exists>err. get_user_show pv = Inl err \<and> response_status err = Some 401))"
  by (auto simp: middleware_def Let_def case_prod_beta split: option.splits sum.splits thrown.splits)

text \<open>
  C8.  One invocation of the middleware of \<open>src/middleware.ts\<close> issues at most one POST and
  at most one GET.  A POST is issued only after the validation GET failed with status 401,
  and the calls are then exactly that GET followed by the POST.  When the POST returns a
  body other than \<open>null\<close>, the request proceeds with the \<open>oauth_data\<close> cookie rewritten to
  the serialised body, and no second validation call is made.
\<close>

theorem middleware_single_refresh:
  "length (filter is_post (snd (middleware rt e pv request))) \<le> 1
   \<and> length (filter is_get (snd (middleware rt e pv request))) \<le> 1
   \<and> (list_ex is_post (snd (middleware rt e pv request)) \<longrightarrow>
        (\<exists>err. get_user_show pv = Inl err \<and> response_status err = Some 401)
        \<and> (\<exists>g p. snd (middleware rt e pv request) = [g, p] \<and> is_get g \<and> is_post p))
   \<and> (list_ex is_post (snd (middleware rt e pv request))
        \<and> post_token pv = Inr newTokens \<and> newTokens \<noteq> JNull \<longrightarrow>
        (\<exists>opts. fst (middleware rt e pv request)
           = Responded \<lparr>kind = NextR,
               cookie_ops = [CookieSet ''oauth_data'' (JSON_stringify rt newTokens) opts]\<rparr>))"
proof -
  let ?tr = "snd (middleware rt e pv request)"
  from middleware_calls [of rt e pv request]
  consider (none) "?tr = []"
    | (one) u h where "?tr = [GetCall u h]"
    | (two) u h tok where "?tr = GetCall u h # snd (refresh rt e pv request tok)"
        and "fst (middleware rt e pv request) = fst (refresh rt e pv request tok)"
        and "\<exists>err. get_user_show pv = Inl err \<and> response_status err = Some 401"
    by blast
  then show ?thesis
  proof cases
    case none
    then show ?thesis by simp
  next
    case one
    then show ?thesis by simp
  next
    case two
    from refresh_calls [of rt e pv request tok]
    obtain u' b' h' where p: "snd (refresh rt e pv request tok) = [PostCall u' b' h']" by blast
    with two(1) have tr: "?tr = [GetCall u h, PostCall u' b' h']" by simp
    have ok: "post_token pv = Inr newTokens \<and> newTokens \<noteq> JNull \<longrightarrow>
        (\<exists>opts. fst (middleware rt e pv request)
           = Responded \<lparr>kind = NextR,
               cookie_ops = [CookieSet ''oauth_data'' (JSON_stringify rt newTokens) opts]\<rparr>)"
      using two(2) refresh_sets_maxAge [of pv newTokens rt e request tok] by auto
    from tr two(3) ok show ?thesis by simp
  qed
qed

theorem middleware_single_refresh_witness:
  "list_ex is_post (snd (middleware ex_runtime ex_env
      (ex_provider (Inl (ex_http_error 401)) (Inr ex_new_bundle)) ex_request))
   \<and> post_token (ex_provider (Inl (ex_http_error 401)) (Inr ex_new_bundle)) = Inr ex_new_bundle
   \<and> ex_new_bundle \<noteq> JNull
   \<and> length (filter is_post (snd (middleware ex_runtime ex_env
      (ex_provider (Inl (ex_http_error 401)) (Inr ex_new_bundle)) ex_request))) \<le> 1
   \<and> length (filter is_get (snd (middleware ex_runtime ex_env
      (ex_provider (Inl (ex_http_error 401)) (Inr ex_new_bundle)) ex_request))) \<le> 1
   \<and> (\<exists>opts. fst (middleware ex_runtime ex_env
      (ex_provider (Inl (ex_http_error 401)) (Inr ex_new_bundle)) ex_request)
        = Responded \<lparr>kind = NextR, cookie_ops = [CookieSet ''oauth_data'' ''new-bundle'' opts]\<rparr>)"
proof -
  let ?pv = "ex_provider (Inl (ex_http_error 401)) (Inr ex_new_bundle)"
  have h1: "list_ex is_post (snd (middleware ex_runtime ex_env ?pv ex_request))"
    by (simp add: middleware_def refresh_def opt_prop_def Let_def ex_request_def ex_guarded_def
          ex_runtime_def ex_bundle_def ex_provider_def ex_http_error_def)
  have h2: "post_token ?pv = Inr ex_new_bundle"
    by (simp add: ex_provider_def)
  have h3: "ex_new_bundle \<noteq> JNull"
    by (simp add: ex_new_bundle_def)
  have h4: "JSON_stringify ex_runtime ex_new_bundle = ''new-bundle''"
    by (simp add: ex_runtime_def)
  from middleware_single_refresh [of ex_runtime ex_env ?pv ex_request ex_new_bundle] h1 h2 h3 h4
  show ?thesis by simp
qed

section \<open>Properties of the callback handler\<close>

text \<open>
  C5, as amended.  When the code parameter and the verifier cookie are present and not
  empty, the token URL is set and not empty, the token endpoint returns \<open>data\<close>, and
  \<open>NextResponse.redirect\<close> accepts the dashboard URL under the application URL, the handler
  answers with that redirect, sets \<open>oauth_data\<close> to the serialised \<open>data\<close>, deletes
  \<open>pkce_verifier\<close>, and has issued the one token POST.
\<close>

theorem callback_success:
  assumes "map_of (searchParams request) ''code'' = Some c" and "c \<noteq> []"
    and "map_of (cookies request) ''pkce_verifier'' = Some v" and "v \<noteq> []"
    and "NEXT_PUBLIC_OAUTH_TOKEN_URL e = Some u" and "u \<noteq> []"
    and "post_token pv = Inr data"
    and "NextResponse_redirect rt (tmpl (NEXT_PUBLIC_APP_URL e) @ ''/dashboard'') = Inr location"
  shows "GET rt e pv request
         = (\<lparr>kind = RedirectR location,
             cookie_ops =
               [CookieSet ''oauth_data'' (JSON_stringify rt data)
                  \<lparr>httpOnly = True, secure = False, sameSite = ''lax'', path = ''/'', maxAge = None\<rparr>,
                CookieDelete ''pkce_verifier'']\<rparr>,
            [PostCall u
               (URLSearchParams_toString rt
                  [(''grant_type'', ''authorization_code''),
                   (''client_id'', case NEXT_PUBLIC_OAUTH_CLIENT_ID e of None \<Rightarrow> [] | Some s \<Rightarrow> s),
                   (''redirect_uri'', case NEXT_PUBLIC_OAUTH_REDIRECT_URI e of None \<Rightarrow> [] | Some s \<Rightarrow> s),
                   (''code'', c),
                   (''code_verifier'', v)])
               [(''Content-Type'', ''application/x-www-form-urlencoded'')]])"
  using assms by (simp add: GET_def Let_def)

theorem callback_success_witness:
  "map_of (searchParams (ex_callback ''abc'')) ''code'' = Some ''abc''
   \<and> map_of (cookies (ex_callback ''abc'')) ''pkce_verifier'' = Some ''ver''
   \<and> NEXT_PUBLIC_OAUTH_TOKEN_URL ex_env = Some ''https://id.example/oauth/token''
   \<and> post_token (ex_provider (Inr (JObj [])) (Inr ex_new_bundle)) = Inr ex_new_bundle
   \<and> NextResponse_redirect ex_runtime (tmpl (NEXT_PUBLIC_APP_URL ex_env) @ ''/dashboard'')
     = Inr ''https://app.example/dashboard''
   \<and> GET ex_runtime ex_env (ex_provider (Inr (JObj [])) (Inr ex_new_bundle)) (ex_callback ''abc'')
     = (\<lparr>kind = RedirectR ''https://app.example/dashboard'',
         cookie_ops =
           [CookieSet ''oauth_data'' ''new-bundle''
              \<lparr>httpOnly = True, secure = False, sameSite = ''lax'', path = ''/'', maxAge = None\<rparr>,
            CookieDelete ''pkce_verifier'']\<rparr>,
        [PostCall ''https://id.example/oauth/token''
           ''grant_type=authorization_code&client_id=client&redirect_uri=https://app.example/auth/callback&code=abc&code_verifier=ver&''
           [(''Content-Type'', ''application/x-www-form-urlencoded'')]])"
proof -
  let ?pv = "ex_provider (Inr (JObj [])) (Inr ex_new_bundle)"
  have h1: "map_of (searchParams (ex_callback ''abc'')) ''code'' = Some ''abc''"
    and h2: "map_of (cookies (ex_callback ''abc'')) ''pkce_verifier'' = Some ''ver''"
    by (simp_all add: ex_callback_def)
  have n1: "''abc'' \<noteq> []" and n2: "''ver'' \<noteq> []"
    and n3: "''https://id.example/oauth/token'' \<noteq> []"
    by simp_all
  have h3: "NEXT_PUBLIC_OAUTH_TOKEN_URL ex_env = Some ''https://id.example/oauth/token''"
    by (simp add: ex_env_def)
  have h4: "post_token ?pv = Inr ex_new_bundle"
    by (simp add: ex_provider_def)
  have h5: "NextResponse_redirect ex_runtime (tmpl (NEXT_PUBLIC_APP_URL ex_env) @ ''/dashboard'')
            = Inr ''https://app.example/dashboard''"
    by (simp add: ex_runtime_def ex_env_def)
  have e1: "JSON_stringify ex_runtime ex_new_bundle = ''new-bundle''"
    by (simp add: ex_runtime_def)
  have e2: "URLSearchParams_toString ex_runtime
               [(''grant_type'', ''authorization_code''),
                (''client_id'', case NEXT_PUBLIC_OAUTH_CLIENT_ID ex_env of None \<Rightarrow> [] | Some s \<Rightarrow> s),
                (''redirect_uri'', case NEXT_PUBLIC_OAUTH_REDIRECT_URI ex_env of None \<Rightarrow> [] | Some s \<Rightarrow> s),
                (''code'', ''abc''),
                (''code_verifier'', ''ver'')]
             = ''grant_type=authorization_code&client_id=client&redirect_uri=https://app.example/auth/callback&code=abc&code_verifier=ver&''"
    by (simp add: ex_runtime_def ex_env_def)
  from callback_success [OF h1 n1 h2 n2 h3 n3 h4 h5] h1 h2 h3 h4 h5 e1 e2
  show ?thesis by simp
qed

text \<open>
  C5 fails as stated.  In each of the three runs the code parameter and the verifier
  cookie are present and the token endpoint answers with a bundle, yet the handler returns
  a JSON error and touches no cookie: with \<open>?code=\<close> it is the 400 response, with the
  token URL unset the 500 response before any call, and with an application URL that
  makes the redirect target relative the 500 response after the POST.
\<close>

theorem callback_present_yet_error:
  "map_of (searchParams (ex_callback [])) ''code'' = Some []
   \<and> map_of (cookies (ex_callback [])) ''pkce_verifier'' = Some ''ver''
   \<and> post_token (ex_provider (Inr (JObj [])) (Inr ex_new_bundle)) = Inr ex_new_bundle
   \<and> GET ex_runtime ex_env (ex_provider (Inr (JObj [])) (Inr ex_new_bundle)) (ex_callback [])
     = (json_response (payload_of ''Invalid state: missing code or verifier'') 400, [])
   \<and> map_of (searchParams (ex_callback ''abc'')) ''code'' = Some ''abc''
   \<and> map_of (cookies (ex_callback ''abc'')) ''pkce_verifier'' = Some ''ver''
   \<and> GET ex_runtime ex_env_no_token_url (ex_provider (Inr (JObj [])) (Inr ex_new_bundle))
        (ex_callback ''abc'')
     = (json_response
          ((payload_of ''OAuth Error'')
             \<lparr>message := Some ''Token URL not defined'', name := Some ''Error''\<rparr>) 500, [])
   \<and> GET ex_runtime ex_env_relative_app (ex_provider (Inr (JObj [])) (Inr ex_new_bundle))
        (ex_callback ''abc'')
     = (json_response
          ((payload_of ''OAuth Error'')
             \<lparr>message := Some ''URL is malformed'', name := Some ''Error''\<rparr>) 500,
        [PostCall ''https://id.example/oauth/token''
           ''grant_type=authorization_code&client_id=client&redirect_uri=https://app.example/auth/callback&code=abc&code_verifier=ver&''
           [(''Content-Type'', ''application/x-www-form-urlencoded'')]])"
  by (simp add: GET_def Let_def ex_callback_def ex_env_def ex_env_no_token_url_def
        ex_env_relative_app_def ex_provider_def ex_runtime_def)

text \<open>
  C6, as amended.  The handler answers with status 400 and the body
  \<open>{error: "Invalid state: missing code or verifier"}\<close> exactly when the code parameter
  is absent or empty, or the verifier cookie is absent or empty.
\<close>

theorem invalid_state_iff_falsy:
  "(fst (GET rt e pv request)
      = json_response (payload_of ''Invalid state: missing code or verifier'') 400)
   = (\<not> truthy_str (map_of (searchParams request) ''code'')
      \<or> \<not> truthy_str (map_of (cookies request) ''pkce_verifier''))"
  by (cases "post_token pv")
     (auto simp: GET_def Let_def json_response_def split: sum.splits)

theorem invalid_state_iff_falsy_witness:
  "truthy_str (map_of (searchParams (ex_callback ''abc'')) ''code'')
   \<and> truthy_str (map_of (cookies (ex_callback ''abc'')) ''pkce_verifier'')
   \<and> fst (GET ex_runtime ex_env (ex_provider (Inr (JObj [])) (Inl (ex_http_error 400))) (ex_callback ''abc''))
     \<noteq> json_response (payload_of ''Invalid state: missing code or verifier'') 400"
proof -
  have h: "truthy_str (map_of (searchParams (ex_callback ''abc'')) ''code'')
         \<and> truthy_str (map_of (cookies (ex_callback ''abc'')) ''pkce_verifier'')"
    by (simp add: ex_callback_def)
  from invalid_state_iff_falsy [of ex_runtime ex_env
         "ex_provider (Inr (JObj [])) (Inl (ex_http_error 400))" "ex_callback ''abc''"] h
  show ?thesis by simp
qed

text \<open>
  C6 fails as stated: with \<open>?code=\<close> the code parameter is present and so is the verifier
  cookie, yet the answer is the 400 response.
\<close>

theorem empty_code_invalid_state:
  "\<not> ((fst (GET ex_runtime ex_env (ex_provider (Inr (JObj [])) (Inr ex_new_bundle)) (ex_callback ''''))
        = json_response (payload_of ''Invalid state: missing code or verifier'') 400)
      = (map_of (searchParams (ex_callback '''')) ''code'' = None
         \<or> map_of (cookies (ex_callback '''')) ''pkce_verifier'' = None))"
  by (simp add: GET_def Let_def ex_callback_def)

text \<open>
  C7.  The callback handler writes \<open>oauth_data\<close> without any max-age, also when the
  provider's bundle carries \<open>expires_in\<close>; the refresh path of the middleware, given the
  same bundle, sets max-age to its \<open>expires_in\<close>.
\<close>

theorem callback_cookie_without_maxAge:
  "fst (GET ex_runtime ex_env (ex_provider (Inr (JObj [])) (Inr ex_new_bundle)) (ex_callback ''abc''))
   = \<lparr>kind = RedirectR ''https://app.example/dashboard'',
      cookie_ops =
        [CookieSet ''oauth_data'' ''new-bundle''
           \<lparr>httpOnly = True, secure = False, sameSite = ''lax'', path = ''/'', maxAge = None\<rparr>,
         CookieDelete ''pkce_verifier'']\<rparr>
   \<and> get_prop ex_new_bundle ''expires_in'' = Some (JNum 7200)
   \<and> fst (refresh ex_runtime ex_env (ex_provider (Inl (ex_http_error 401)) (Inr ex_new_bundle))
            ex_request (Some (JStr ''rt'')))
     = Responded \<lparr>kind = NextR,
         cookie_ops =
           [CookieSet ''oauth_data'' ''new-bundle''
              \<lparr>httpOnly = True, secure = True, sameSite = ''lax'', path = ''/'',
               maxAge = Some (JNum 7200)\<rparr>]\<rparr>"
  by (simp add: GET_def refresh_def Let_def ex_callback_def ex_env_def ex_provider_def
        ex_runtime_def ex_new_bundle_def)

theorem callback_cookie_without_maxAge_witness:
  "cookie_ops (fst (GET ex_runtime ex_env (ex_provider (Inr (JObj [])) (Inr ex_new_bundle))
      (ex_callback ''abc'')))
   = [CookieSet ''oauth_data'' ''new-bundle''
        \<lparr>httpOnly = True, secure = False, sameSite = ''lax'', path = ''/'', maxAge = None\<rparr>,
      CookieDelete ''pkce_verifier'']"
  using callback_cookie_without_maxAge by simp

text \<open>
  C10.  The failure paths of the callback handler are: code or verifier missing or empty,
  token URL unset or empty, the token call throwing (an axios error or anything else), and
  the redirect being refused after the call.  On each of them the response is a JSON error
  with status 400 or 500 that neither sets nor deletes a cookie.  There is no other
  failure path: a run on none of them answers with the redirect.
\<close>

theorem callback_failure_keeps_cookies:
  "((\<not> truthy_str (map_of (searchParams request) ''code'')
      \<or> \<not> truthy_str (map_of (cookies request) ''pkce_verifier'')
      \<or> \<not> truthy_str (NEXT_PUBLIC_OAUTH_TOKEN_URL e)
      \<or> isl (post_token pv)
      \<or> isl (NextResponse_redirect rt (tmpl (NEXT_PUBLIC_APP_URL e) @ ''/dashboard'')))
     \<longrightarrow> cookie_ops (fst (GET rt e pv request)) = []
         \<and> (\<exists>payload. kind (fst (GET rt e pv request)) = JsonR payload 400
                     \<or> kind (fst (GET rt e pv request)) = JsonR payload 500))
   \<and> (\<not> (\<not> truthy_str (map_of (searchParams request) ''code'')
          \<or> \<not> truthy_str (map_of (cookies request) ''pkce_verifier'')
          \<or> \<not> truthy_str (NEXT_PUBLIC_OAUTH_TOKEN_URL e)
          \<or> isl (post_token pv)
          \<or> isl (NextResponse_redirect rt (tmpl (NEXT_PUBLIC_APP_URL e) @ ''/dashboard'')))
     \<longrightarrow> (\<exists>location. kind (fst (GET rt e pv request)) = RedirectR location))"
proof (cases "post_token pv")
  case (Inl err)
  then show ?thesis
    by (auto simp: GET_def Let_def json_response_def)
next
  case (Inr data)
  then show ?thesis
    by (cases "NextResponse_redirect rt (tmpl (NEXT_PUBLIC_APP_URL e) @ ''/dashboard'')")
       (auto simp: GET_def Let_def json_response_def)
qed

theorem callback_failure_keeps_cookies_witness:
  "truthy_str (map_of (searchParams (ex_callback ''abc'')) ''code'')
   \<and> truthy_str (map_of (cookies (ex_callback ''abc'')) ''pkce_verifier'')
   \<and> truthy_str (NEXT_PUBLIC_OAUTH_TOKEN_URL ex_env_relative_app)
   \<and> post_token (ex_provider (Inr (JObj [])) (Inr ex_new_bundle)) = Inr ex_new_bundle
   \<and> isl (NextResponse_redirect ex_runtime
             (tmpl (NEXT_PUBLIC_APP_URL ex_env_relative_app) @ ''/dashboard''))
   \<and> cookie_ops (fst (GET ex_runtime ex_env_relative_app
        (ex_provider (Inr (JObj [])) (Inr ex_new_bundle)) (ex_callback ''abc''))) = []
   \<and> (\<exists>payload. kind (fst (GET ex_runtime ex_env_relative_app
        (ex_provider (Inr (JObj [])) (Inr ex_new_bundle)) (ex_callback ''abc''))) = JsonR payload 400
       \<or> kind (fst (GET ex_runtime ex_env_relative_app
        (ex_provider (Inr (JObj [])) (Inr ex_new_bundle)) (ex_callback ''abc''))) = JsonR payload 500)"
proof -
  have h1: "truthy_str (map_of (searchParams (ex_callback ''abc'')) ''code'')"
    and h2: "truthy_str (map_of (cookies (ex_callback ''abc'')) ''pkce_verifier'')"
    by (simp_all add: ex_callback_def)
  have h3: "truthy_str (NEXT_PUBLIC_OAUTH_TOKEN_URL ex_env_relative_app)"
    by (simp add: ex_env_relative_app_def ex_env_def)
  have h4: "post_token (ex_provider (Inr (JObj [])) (Inr ex_new_bundle)) = Inr ex_new_bundle"
    by (simp add: ex_provider_def)
  have h5: "isl (NextResponse_redirect ex_runtime
                  (tmpl (NEXT_PUBLIC_APP_URL ex_env_relative_app) @ ''/dashboard''))"
    by (simp add: ex_runtime_def ex_env_relative_app_def ex_env_def)
  from callback_failure_keeps_cookies [of "ex_callback ''abc''" ex_env_relative_app
         "ex_provider (Inr (JObj [])) (Inr ex_new_bundle)" ex_runtime] h1 h2 h3 h4 h5
  show ?thesis by simp
qed

end
